theory Spec2Isabelle
  imports Complex_Main "HOL-Library.Word"
begin

unbundle bit_operations_syntax

section \<open>The Cal.com webhook receiver\<close>

text \<open>
  A shallow embedding of the route handler \<open>POST\<close> and of \<open>storeBooking\<close>
  (the webhook source file, lines 38-194). The handler is asynchronous and effectful; the
  model runs it on one request and returns what the caller of the handler observes (a
  response, or an exception that escapes the handler) together with the list of actions
  the handler performed, in the order of the source: console output, the call of
  \<open>JSON.parse\<close>, the schema check and the three collaborators
  (\<open>createLocalBooking\<close>, \<open>refundStripePaymentIntent\<close>, \<open>createAnalyticsEvent\<close>).

  The collaborators and the library functions are not part of the handler. They are the
  fields of an environment \<open>env\<close>: each is a function from its argument to its result,
  and a call that throws returns \<open>Inl\<close> of the thrown value.
\<close>

subsection \<open>JavaScript values\<close>

text \<open>
  What \<open>JSON.parse\<close> can return. An object keeps its members in the order of the text,
  duplicates included. \<open>undefined\<close> is not a JSON value: a value that can be
  \<open>undefined\<close> is a \<open>json option\<close> with \<open>None\<close> for \<open>undefined\<close>.
\<close>

datatype json =
    JNull
  | JBool bool
  | JNum rat
  | JStr string
  | JArr "json list"
  | JObj "(string \<times> json) list"

type_synonym jsval = "json option"

text \<open>Values that the handler or a collaborator throws.\<close>

datatype thrown =
    TypeError
  | RangeError
  | SyntaxError
  | Failure string

text \<open>
  Property access \<open>v.k\<close>. Reading a property of \<open>undefined\<close> or \<open>null\<close> throws a
  TypeError. In an object made by \<open>JSON.parse\<close> the last member of a name wins. The
  handler reads only the names \<open>triggerEvent\<close>, \<open>payload\<close>, \<open>metadata\<close>,
  \<open>paymentId\<close>, \<open>mentorUserId\<close> and \<open>actorUserId\<close>, none of which a prototype of
  a boolean, number, string or array defines, so on those values the result is
  \<open>undefined\<close>.
\<close>

fun get_prop :: "jsval \<Rightarrow> string \<Rightarrow> thrown + jsval" where
  "get_prop None k = Inl TypeError"
| "get_prop (Some JNull) k = Inl TypeError"
| "get_prop (Some (JObj kvs)) k = Inr (map_of (rev kvs) k)"
| "get_prop (Some v) k = Inr None"

text \<open>The test of \<open>if (v)\<close> and \<open>!v\<close>. A number from JSON is never NaN.\<close>

fun truthy :: "jsval \<Rightarrow> bool" where
  "truthy None = False"
| "truthy (Some JNull) = False"
| "truthy (Some (JBool b)) = b"
| "truthy (Some (JNum n)) = (n \<noteq> 0)"
| "truthy (Some (JStr s)) = (s \<noteq> [])"
| "truthy (Some (JArr xs)) = True"
| "truthy (Some (JObj kvs)) = True"

text \<open>\<open>v ?? null\<close>.\<close>

fun or_null :: "jsval \<Rightarrow> json" where
  "or_null None = JNull"
| "or_null (Some v) = v"

text \<open>
  Whether the string conversion of a value inside a template literal throws. An array is
  joined, which converts every element that is not \<open>null\<close>. An object is converted by
  its \<open>toString\<close> method; a member of that name hides the method of the prototype,
  is not callable, and \<open>valueOf\<close> then yields no primitive value, which is a TypeError.
\<close>

fun toString_throws :: "json \<Rightarrow> bool" where
  "toString_throws (JArr xs) = list_ex toString_throws xs"
| "toString_throws (JObj kvs) = (''toString'' \<in> set (map fst kvs))"
| "toString_throws v = False"

text \<open>\<open>undefined\<close> prints as a word.\<close>

fun template_throws :: "jsval \<Rightarrow> bool" where
  "template_throws None = False"
| "template_throws (Some v) = toString_throws v"

subsection \<open>Signature check\<close>

text \<open>
  \<open>Buffer.from(s, 'utf8')\<close> for a header value or a hex digest. \<open>Headers.get\<close>
  returns a byte string, every character of which is a code point below 256: a \<open>char\<close>.
  Code points below 128 are one byte in UTF-8, the others two.
\<close>

type_synonym buffer = "char list"

definition utf8_char :: "char \<Rightarrow> buffer" where
  "utf8_char c =
     (let n = (of_char c :: nat)
      in if n < 128 then [c] else [char_of (192 + n div 64), char_of (128 + n mod 64)])"

definition Buffer_from_utf8 :: "string \<Rightarrow> buffer" where
  "Buffer_from_utf8 s = concat (map utf8_char s)"

text \<open>\<open>crypto.timingSafeEqual\<close> throws a RangeError on buffers of different byte length.\<close>

definition timingSafeEqual :: "buffer \<Rightarrow> buffer \<Rightarrow> thrown + bool" where
  "timingSafeEqual a b = (if length a \<noteq> length b then Inl RangeError else Inr (a = b))"

text \<open>\<open>digest('hex')\<close> of a 256-bit digest: 64 lower-case hex digits, high nibble first.\<close>

definition hex_digit :: "nat \<Rightarrow> char" where
  "hex_digit n = (if n < 10 then char_of (48 + n) else char_of (87 + n))"

definition digest_hex :: "256 word \<Rightarrow> string" where
  "digest_hex w = map (\<lambda>i. hex_digit (unat (drop_bit (4 * (63 - i)) w AND 15))) [0..<64]"

subsection \<open>Bookings\<close>

text \<open>A time value of a \<open>Date\<close>: milliseconds since the epoch, \<open>None\<close> for an invalid date.\<close>

type_synonym time_value = "int option"

text \<open>
  \<open>new Date(n)\<close> for a number: a time value beyond 8.64e15 milliseconds on either side
  of the epoch is an invalid date.
\<close>

definition new_Date :: "int \<Rightarrow> time_value" where
  "new_Date n = (if \<bar>n\<bar> \<le> 8640000000000000 then Some n else None)"

record attendee =
  a_name :: jsval
  a_email :: jsval
  a_phoneNumber :: jsval
  a_timeZone :: jsval

record organizer =
  o_email :: jsval
  o_username :: jsval
  o_name :: jsval

record metadata =
  videoCallUrl :: jsval
  paymentId :: "string option"
  mentorUserId :: jsval

text \<open>
  Modelled from the spec: the declaration of \<open>CalcomBookingPayloadSchema\<close> and of its
  type \<open>CalcomBookingPayload\<close> (\<open>~/lib/schemas/calcom\<close>) is not among the sources.
  \<open>booking_payload\<close> is \<open>validation.data\<close>, with the fields that \<open>storeBooking\<close>
  reads. The spec's data model gives a list of attendees, a duration in minutes and an
  optional payment id; the duration is a whole number here, and the fields that the
  handler only passes on are left as JavaScript values.
\<close>

record booking_payload =
  bookingId :: jsval
  uid :: jsval
  title :: jsval
  description :: jsval
  attendees :: "attendee list"
  startTime :: jsval
  length' :: int
  organizer :: organizer
  eventTypeId :: jsval
  metadata :: metadata

text \<open>\<open>Number(s)\<close> of a string, not evaluated.\<close>

datatype number_of = Number string

record new_organizer =
  no_userId :: jsval
  no_email :: jsval
  no_username :: jsval
  no_name :: jsval

text \<open>The argument of \<open>createLocalBooking\<close> (lines 160-184).\<close>

record new_booking =
  calcomBookingId :: jsval
  calcomUid :: jsval
  nb_title :: jsval
  nb_description :: jsval
  nb_startTime :: time_value
  duration :: int
  endTime :: time_value
  meetingUrl :: jsval
  calcomEventTypeId :: jsval
  nb_paymentId :: "number_of option"
  nb_organizer :: new_organizer
  nb_attendee :: attendee
  webhookPayload :: jsval

text \<open>
  Modelled from the spec: \<open>createLocalBooking\<close> (\<open>~/server/queries\<close>) is not among
  the sources. Its result is the created LocalBooking: the record it was given, under
  an identifier.
\<close>

record local_booking =
  id' :: nat
  stored :: new_booking

record analytics_event =
  eventType :: string
  targetUserId :: jsval
  actorUserId :: json

datatype zod_error = ZodError "string list"

subsection \<open>Requests, responses and actions\<close>

text \<open>
  The request: the result of \<open>req.headers.get('x-cal-signature-256')\<close> (\<open>None\<close> when
  the header is absent) and of \<open>req.text()\<close>.
\<close>

record request =
  x_cal_signature_256 :: "string option"
  text' :: string

datatype body = ErrorBody string | Received | Booking local_booking

record response =
  status :: nat
  json_body :: body

text \<open>One constructor for each console call of the source, with the values it prints.\<close>

datatype console =
    SignatureFailed
  | ParseFailed thrown
  | ReceivedEvent jsval jsval
  | ReceivedKind jsval
  | MissingPaymentId
  | RefundFailed jsval thrown
  | TranscriptionGenerated
  | TranscriptionText jsval
  | RecordingReady
  | RecordingDetails jsval
  | MeetingStarted
  | MeetingEnded
  | MeetingDetails jsval
  | BookingCanceled
  | BookingDetails jsval
  | Unhandled jsval
  | DispatchError jsval thrown
  | ProcessingBooking
  | InvalidBookingPayload zod_error
  | StoredBooking nat jsval
  | StoreFailed thrown
  | RawPayload jsval

datatype action =
    Console console
  | JSONParse string
  | SafeParse jsval
  | CreateLocalBooking new_booking
  | RefundStripePaymentIntent jsval
  | CreateAnalyticsEvent analytics_event

type_synonym trace = "action list"

text \<open>
  The environment: the configured secret, HMAC-SHA-256 (key, then message),
  \<open>JSON.parse\<close> (\<open>None\<close> when it throws its SyntaxError),
  \<open>CalcomBookingPayloadSchema.safeParse\<close>, the \<open>Date\<close> constructor on the
  validated start time, and the three collaborators.
\<close>

record env =
  CALCOM_WEBHOOK_SECRET :: string
  hmac_sha256 :: "string \<Rightarrow> string \<Rightarrow> 256 word"
  JSON_parse :: "string \<Rightarrow> json option"
  safeParse :: "jsval \<Rightarrow> zod_error + booking_payload"
  Date_of :: "jsval \<Rightarrow> time_value"
  createLocalBooking :: "new_booking \<Rightarrow> thrown + local_booking"
  refundStripePaymentIntent :: "jsval \<Rightarrow> thrown + unit"
  createAnalyticsEvent :: "analytics_event \<Rightarrow> thrown + unit"

datatype outcome = Respond response | Uncaught thrown

text \<open>How the body of the \<open>try\<close> of lines 71-125 ends.\<close>

datatype completion = Return response | Break | Throw thrown

definition after :: "trace \<Rightarrow> 'a \<times> trace \<Rightarrow> 'a \<times> trace" where
  "after tr r = (fst r, tr @ snd r)"

subsection \<open>storeBooking (lines 135-194)\<close>

text \<open>
  The object of lines 160-184. \<open>start.getTime() + length * 60000\<close> is NaN for an
  invalid start. For a valid start and a whole number of minutes the sum in double
  precision is the exact sum whenever that is a time value in the range of \<open>Date\<close>, and
  lies outside the range otherwise, so integer arithmetic followed by \<open>new_Date\<close> gives
  the same \<open>Date\<close>.
\<close>

definition booking_of :: "env \<Rightarrow> jsval \<Rightarrow> booking_payload \<Rightarrow> attendee \<Rightarrow> new_booking" where
  "booking_of E event d attendee =
     (let start = Date_of E (startTime d)
      in \<lparr> calcomBookingId = bookingId d,
           calcomUid = uid d,
           nb_title = title d,
           nb_description = description d,
           nb_startTime = start,
           duration = length' d,
           endTime = (case start of None \<Rightarrow> None | Some t \<Rightarrow> new_Date (t + length' d * 60000)),
           meetingUrl = videoCallUrl (metadata d),
           calcomEventTypeId = eventTypeId d,
           nb_paymentId =
             (case paymentId (metadata d) of
                None \<Rightarrow> None
              | Some s \<Rightarrow> if s \<noteq> [] then Some (Number s) else None),
           nb_organizer =
             \<lparr> no_userId = mentorUserId (metadata d),
               no_email = o_email (organizer d),
               no_username = o_username (organizer d),
               no_name = o_name (organizer d) \<rparr>,
           nb_attendee =
             \<lparr> a_name = a_name attendee,
               a_email = a_email attendee,
               a_phoneNumber = a_phoneNumber attendee,
               a_timeZone = a_timeZone attendee \<rparr>,
           webhookPayload = event \<rparr>)"

text \<open>
  Everything after line 136 is inside the \<open>try\<close>. With no attendee, \<open>attendee\<close> is
  \<open>undefined\<close> and \<open>attendee.name\<close> throws while the argument is built, before the
  call.
\<close>

definition storeBooking :: "env \<Rightarrow> jsval \<Rightarrow> response \<times> trace" where
  "storeBooking E event =
     after [Console ProcessingBooking, SafeParse event]
       (case safeParse E event of
          Inl err \<Rightarrow>
            (\<lparr>status = 400, json_body = ErrorBody ''Invalid booking payload''\<rparr>,
             [Console (InvalidBookingPayload err)])
        | Inr d \<Rightarrow>
            (case attendees d of
               [] \<Rightarrow>
                 (\<lparr>status = 500, json_body = ErrorBody ''Failed to process booking''\<rparr>,
                  [Console (StoreFailed TypeError), Console (RawPayload event)])
             | attendee # rest \<Rightarrow>
                 (case createLocalBooking E (booking_of E event d attendee) of
                    Inl e \<Rightarrow>
                      (\<lparr>status = 500, json_body = ErrorBody ''Failed to process booking''\<rparr>,
                       [CreateLocalBooking (booking_of E event d attendee),
                        Console (StoreFailed e), Console (RawPayload event)])
                  | Inr booking \<Rightarrow>
                      (\<lparr>status = 201, json_body = Booking booking\<rparr>,
                       [CreateLocalBooking (booking_of E event d attendee),
                        Console (StoredBooking (id' booking) (uid d))]))))"

subsection \<open>POST (lines 38-133)\<close>

text \<open>\<open>payload.metadata.k\<close>: two property reads, either of which can throw.\<close>

definition metadata_prop :: "jsval \<Rightarrow> string \<Rightarrow> thrown + jsval" where
  "metadata_prop payload k =
     (case get_prop payload ''metadata'' of
        Inl e \<Rightarrow> Inl e
      | Inr m \<Rightarrow> get_prop m k)"

text \<open>The \<open>switch\<close> of lines 72-125, inside the \<open>try\<close>.\<close>

definition dispatch :: "env \<Rightarrow> jsval \<Rightarrow> jsval \<Rightarrow> completion \<times> trace" where
  "dispatch E triggerEvent payload =
     (if triggerEvent = Some (JStr ''BOOKING_CREATED'') then
        (case storeBooking E payload of (r, tr) \<Rightarrow> (Return r, tr))
      else if triggerEvent = Some (JStr ''AFTER_HOSTS_CAL_VIDEO_NO_SHOW'') then
        (case metadata_prop payload ''paymentId'' of
           Inl e \<Rightarrow> (Throw e, [])
         | Inr pid \<Rightarrow>
             if \<not> truthy pid then
               (Return \<lparr>status = 400, json_body = ErrorBody ''Missing paymentId''\<rparr>,
                [Console MissingPaymentId])
             else
               (case refundStripePaymentIntent E pid of
                  Inl err \<Rightarrow>
                    (Return \<lparr>status = 500, json_body = ErrorBody ''Failed to process refund''\<rparr>,
                     [RefundStripePaymentIntent pid, Console (RefundFailed pid err)])
                | Inr u \<Rightarrow> (Break, [RefundStripePaymentIntent pid])))
      else if triggerEvent = Some (JStr ''RECORDING_TRANSCRIPTION_GENERATED'') then
        (Break, [Console TranscriptionGenerated, Console (TranscriptionText payload)])
      else if triggerEvent = Some (JStr ''RECORDING_READY'') then
        (Break, [Console RecordingReady, Console (RecordingDetails payload)])
      else if triggerEvent = Some (JStr ''MEETING_STARTED'') then
        (Break, [Console MeetingStarted, Console (MeetingDetails payload)])
      else if triggerEvent = Some (JStr ''MEETING_ENDED'') then
        after [Console MeetingEnded, Console (MeetingDetails payload)]
          (case metadata_prop payload ''mentorUserId'' of
             Inl e \<Rightarrow> (Throw e, [])
           | Inr mentor \<Rightarrow>
               if truthy mentor then
                 (case metadata_prop payload ''actorUserId'' of
                    Inl e \<Rightarrow> (Throw e, [])
                  | Inr actor \<Rightarrow>
                      (let ev = \<lparr>eventType = ''COMPLETED_BOOKING'', targetUserId = mentor,
                                 actorUserId = or_null actor\<rparr>
                       in case createAnalyticsEvent E ev of
                            Inl e \<Rightarrow> (Throw e, [CreateAnalyticsEvent ev])
                          | Inr u \<Rightarrow> (Break, [CreateAnalyticsEvent ev])))
               else (Break, []))
      else if triggerEvent = Some (JStr ''BOOKING_CANCELED'') then
        (Break, [Console BookingCanceled, Console (BookingDetails payload)])
      else (Break, [Console (Unhandled triggerEvent)]))"

text \<open>
  Lines 126-132: what the \<open>try\<close> returned is the response; what it threw is caught,
  logged with the event kind and answered with 500; otherwise the handler acknowledges.
\<close>

fun settle :: "jsval \<Rightarrow> completion \<times> trace \<Rightarrow> outcome \<times> trace" where
  "settle triggerEvent (Return r, tr) = (Respond r, tr)"
| "settle triggerEvent (Break, tr) = (Respond \<lparr>status = 200, json_body = Received\<rparr>, tr)"
| "settle triggerEvent (Throw e, tr) =
     (Respond \<lparr>status = 500, json_body = ErrorBody ''Failed to process webhook''\<rparr>,
      tr @ [Console (DispatchError triggerEvent e)])"

text \<open>
  Lines 63-133, on the parsed event. The property reads of lines 64-65 and the template
  literal of line 69 are outside every \<open>try\<close>: what they throw escapes the handler.
\<close>

definition POST_event :: "env \<Rightarrow> json \<Rightarrow> outcome \<times> trace" where
  "POST_event E event =
     (case get_prop (Some event) ''triggerEvent'' of
        Inl e \<Rightarrow> (Uncaught e, [])
      | Inr triggerEvent \<Rightarrow>
          (case get_prop (Some event) ''payload'' of
             Inl e \<Rightarrow> (Uncaught e, [])
           | Inr payload \<Rightarrow>
               after [Console (ReceivedEvent triggerEvent payload)]
                 (if template_throws triggerEvent then (Uncaught TypeError, [])
                  else
                    after [Console (ReceivedKind triggerEvent)]
                      (settle triggerEvent (dispatch E triggerEvent payload)))))"

text \<open>Lines 55-61, then the rest.\<close>

definition POST_verified :: "env \<Rightarrow> string \<Rightarrow> outcome \<times> trace" where
  "POST_verified E bodyText =
     after [JSONParse bodyText]
       (case JSON_parse E bodyText of
          None \<Rightarrow>
            (Respond \<lparr>status = 400, json_body = ErrorBody ''Invalid payload''\<rparr>,
             [Console (ParseFailed SyntaxError)])
        | Some event \<Rightarrow> POST_event E event)"

text \<open>Line 39: the header value, or the empty string.\<close>

definition signature :: "request \<Rightarrow> string" where
  "signature req = (case x_cal_signature_256 req of None \<Rightarrow> [] | Some s \<Rightarrow> s)"

text \<open>Lines 43-46.\<close>

definition expectedSignature :: "env \<Rightarrow> string \<Rightarrow> string" where
  "expectedSignature E bodyText = digest_hex (hmac_sha256 E (CALCOM_WEBHOOK_SECRET E) bodyText)"

definition POST :: "env \<Rightarrow> request \<Rightarrow> outcome \<times> trace" where
  "POST E req =
     (case timingSafeEqual (Buffer_from_utf8 (expectedSignature E (text' req)))
                           (Buffer_from_utf8 (signature req)) of
        Inl e \<Rightarrow> (Uncaught e, [])
      | Inr equal \<Rightarrow>
          if \<not> equal then
            (Respond \<lparr>status = 400, json_body = ErrorBody ''Invalid signature''\<rparr>,
             [Console SignatureFailed])
          else POST_verified E (text' req))"

subsection \<open>What a trace holds\<close>

text \<open>The calls of each collaborator in a trace, in order, with their arguments.\<close>

fun persist_calls :: "trace \<Rightarrow> new_booking list" where
  "persist_calls [] = []"
| "persist_calls (CreateLocalBooking nb # tr) = nb # persist_calls tr"
| "persist_calls (a # tr) = persist_calls tr"

fun refund_calls :: "trace \<Rightarrow> jsval list" where
  "refund_calls [] = []"
| "refund_calls (RefundStripePaymentIntent p # tr) = p # refund_calls tr"
| "refund_calls (a # tr) = refund_calls tr"

fun analytics_calls :: "trace \<Rightarrow> analytics_event list" where
  "analytics_calls [] = []"
| "analytics_calls (CreateAnalyticsEvent ev # tr) = ev # analytics_calls tr"
| "analytics_calls (a # tr) = analytics_calls tr"

subsection \<open>An example environment and example deliveries\<close>

text \<open>
  A small environment on which the theorems below are instantiated. The keyed digest is
  a stand-in (the sum of the two lengths), \<open>JSON.parse\<close> is a table of the example
  bodies, the schema accepts the example booking, and the analytics collaborator fails
  for the mentor \<open>u2\<close>.
\<close>

definition booking_text :: string where
  \<open>booking_text = ''{"triggerEvent":"BOOKING_CREATED","payload":{"bookingId":7,"uid":"bk_1","title":"Intro call","attendees":[{"name":"Ann","email":"ann@example.org","timeZone":"UTC"}],"startTime":"2025-01-01T10:00:00.000Z","length":30,"organizer":{"email":"bob@example.org","username":"bob","name":"Bob"},"eventTypeId":3,"metadata":{"mentorUserId":"u1","paymentId":"42"}}}''\<close>

definition booking_payload_json :: json where
  "booking_payload_json =
     JObj [(''bookingId'', JNum 7), (''uid'', JStr ''bk_1''), (''title'', JStr ''Intro call''),
           (''attendees'', JArr [JObj [(''name'', JStr ''Ann''), (''email'', JStr ''ann@example.org''),
                                       (''timeZone'', JStr ''UTC'')]]),
           (''startTime'', JStr ''2025-01-01T10:00:00.000Z''), (''length'', JNum 30),
           (''organizer'', JObj [(''email'', JStr ''bob@example.org''), (''username'', JStr ''bob''),
                                 (''name'', JStr ''Bob'')]),
           (''eventTypeId'', JNum 3),
           (''metadata'', JObj [(''mentorUserId'', JStr ''u1''), (''paymentId'', JStr ''42'')])]"

definition booking_event :: json where
  "booking_event =
     JObj [(''triggerEvent'', JStr ''BOOKING_CREATED''), (''payload'', booking_payload_json)]"

definition booking_attendee :: attendee where
  "booking_attendee =
     \<lparr> a_name = Some (JStr ''Ann''), a_email = Some (JStr ''ann@example.org''),
       a_phoneNumber = None, a_timeZone = Some (JStr ''UTC'') \<rparr>"

definition booking_data :: booking_payload where
  "booking_data =
     \<lparr> bookingId = Some (JNum 7), uid = Some (JStr ''bk_1''), title = Some (JStr ''Intro call''),
       description = None,
       attendees = [booking_attendee],
       startTime = Some (JStr ''2025-01-01T10:00:00.000Z''), length' = 30,
       organizer = \<lparr> o_email = Some (JStr ''bob@example.org''), o_username = Some (JStr ''bob''),
                     o_name = Some (JStr ''Bob'') \<rparr>,
       eventTypeId = Some (JNum 3),
       metadata = \<lparr> videoCallUrl = None, paymentId = Some ''42'',
                    mentorUserId = Some (JStr ''u1'') \<rparr> \<rparr>"

definition ping_text :: string where
  \<open>ping_text = ''{"triggerEvent":"PING","payload":{}}''\<close>

definition ping_event :: json where
  "ping_event = JObj [(''triggerEvent'', JStr ''PING''), (''payload'', JObj [])]"

definition no_show_text :: string where
  \<open>no_show_text = ''{"triggerEvent":"AFTER_HOSTS_CAL_VIDEO_NO_SHOW","payload":{"metadata":{}}}''\<close>

definition no_show_event :: json where
  "no_show_event =
     JObj [(''triggerEvent'', JStr ''AFTER_HOSTS_CAL_VIDEO_NO_SHOW''),
           (''payload'', JObj [(''metadata'', JObj [])])]"

definition no_show_paid_text :: string where
  \<open>no_show_paid_text = ''{"triggerEvent":"AFTER_HOSTS_CAL_VIDEO_NO_SHOW","payload":{"metadata":{"paymentId":"pi_1"}}}''\<close>

definition no_show_paid_event :: json where
  "no_show_paid_event =
     JObj [(''triggerEvent'', JStr ''AFTER_HOSTS_CAL_VIDEO_NO_SHOW''),
           (''payload'', JObj [(''metadata'', JObj [(''paymentId'', JStr ''pi_1'')])])]"

definition no_show_bare_text :: string where
  \<open>no_show_bare_text = ''{"triggerEvent":"AFTER_HOSTS_CAL_VIDEO_NO_SHOW","payload":{}}''\<close>

definition no_show_bare_event :: json where
  "no_show_bare_event =
     JObj [(''triggerEvent'', JStr ''AFTER_HOSTS_CAL_VIDEO_NO_SHOW''), (''payload'', JObj [])]"

definition meeting_text :: string where
  \<open>meeting_text = ''{"triggerEvent":"MEETING_ENDED","payload":{"metadata":{"mentorUserId":"u1"}}}''\<close>

definition meeting_event :: json where
  "meeting_event =
     JObj [(''triggerEvent'', JStr ''MEETING_ENDED''),
           (''payload'', JObj [(''metadata'', JObj [(''mentorUserId'', JStr ''u1'')])])]"

definition meeting_fail_text :: string where
  \<open>meeting_fail_text = ''{"triggerEvent":"MEETING_ENDED","payload":{"metadata":{"mentorUserId":"u2"}}}''\<close>

definition meeting_fail_event :: json where
  "meeting_fail_event =
     JObj [(''triggerEvent'', JStr ''MEETING_ENDED''),
           (''payload'', JObj [(''metadata'', JObj [(''mentorUserId'', JStr ''u2'')])])]"

definition meeting_actor_text :: string where
  \<open>meeting_actor_text = ''{"triggerEvent":"MEETING_ENDED","payload":{"metadata":{"mentorUserId":"u1","actorUserId":"u9"}}}''\<close>

definition meeting_actor_event :: json where
  "meeting_actor_event =
     JObj [(''triggerEvent'', JStr ''MEETING_ENDED''),
           (''payload'', JObj [(''metadata'', JObj [(''mentorUserId'', JStr ''u1''),
                                                    (''actorUserId'', JStr ''u9'')])])]"

definition example_env :: env where
  "example_env =
     \<lparr> CALCOM_WEBHOOK_SECRET = ''whsec_test'',
       hmac_sha256 = (\<lambda>key message. of_nat (length key + length message)),
       JSON_parse =
         map_of [(booking_text, booking_event), (ping_text, ping_event),
                 (no_show_text, no_show_event), (no_show_paid_text, no_show_paid_event),
                 (no_show_bare_text, no_show_bare_event),
                 (meeting_text, meeting_event), (meeting_fail_text, meeting_fail_event),
                 (meeting_actor_text, meeting_actor_event)],
       safeParse =
         (\<lambda>v. if v = Some booking_payload_json then Inr booking_data
              else Inl (ZodError [''Required''])),
       Date_of =
         (\<lambda>v. if v = Some (JStr ''2025-01-01T10:00:00.000Z'') then Some 1735725600000 else None),
       createLocalBooking = (\<lambda>nb. Inr \<lparr>id' = 1, stored = nb\<rparr>),
       refundStripePaymentIntent = (\<lambda>p. Inr ()),
       createAnalyticsEvent =
         (\<lambda>ev. if targetUserId ev = Some (JStr ''u2'') then Inl (Failure ''analytics unavailable'')
               else Inr ()) \<rparr>"

text \<open>The delivery of a body with the signature header that the example digest gives it.\<close>

definition delivery :: "string \<Rightarrow> string \<Rightarrow> request" where
  "delivery sig bodyText = \<lparr> x_cal_signature_256 = Some sig, text' = bodyText \<rparr>"

section \<open>Properties\<close>

subsection \<open>Buffers and digests\<close>

lemma of_char_lt_256: "(of_char c :: nat) < 256"
  by (cases c) (simp add: of_char_Char horner_sum_bit_eq_take_bit [symmetric] del: of_char_Char)

lemma Buffer_from_utf8_ascii:
  "list_all (\<lambda>c. (of_char c :: nat) < 128) s \<Longrightarrow> Buffer_from_utf8 s = s"
  by (induction s) (simp_all add: Buffer_from_utf8_def utf8_char_def)

lemma hex_digit_ascii: "n < 16 \<Longrightarrow> (of_char (hex_digit n) :: nat) < 128"
  by (simp add: hex_digit_def)

lemma nibble_bound: "unat ((w :: 256 word) AND 15) < 16"
proof -
  have "w AND 15 = take_bit 4 w"
    by (simp add: take_bit_eq_mask mask_eq_exp_minus_1)
  then have "unat (w AND 15) = take_bit 4 (unat w)"
    by (simp add: unsigned_take_bit_eq)
  also have "\<dots> < 2 ^ 4"
    by (rule take_bit_nat_less_exp)
  finally show ?thesis by simp
qed

lemma digest_hex_ascii: "list_all (\<lambda>c. (of_char c :: nat) < 128) (digest_hex w)"
  by (simp add: digest_hex_def list_all_iff hex_digit_ascii nibble_bound del: upt.simps)

lemma Buffer_digest_hex: "Buffer_from_utf8 (digest_hex w) = digest_hex w"
  by (rule Buffer_from_utf8_ascii [OF digest_hex_ascii])

lemma length_digest_hex: "length (digest_hex w) = 64"
  by (simp add: digest_hex_def)

text \<open>The expected signature is always a buffer of 64 bytes.\<close>

lemma length_expected: "length (Buffer_from_utf8 (expectedSignature E b)) = 64"
  by (simp add: expectedSignature_def Buffer_digest_hex length_digest_hex)

text \<open>The encoding loses nothing: two strings with the same bytes are the same string.\<close>

lemma utf8_char_inj:
  assumes "utf8_char a @ xs = utf8_char b @ ys"
  shows "a = b \<and> xs = ys"
proof -
  define m where "m = (of_char a :: nat)"
  define n where "n = (of_char b :: nat)"
  have m: "m < 256" and n: "n < 256"
    by (simp_all add: m_def n_def of_char_lt_256)
  have ab: "a = char_of m" "b = char_of n"
    by (simp_all add: m_def n_def)
  have eq: "char_of i = (char_of j :: char) \<longleftrightarrow> i = j" if "i < 256" "j < 256" for i j :: nat
    using that by (metis of_char_of mod_less)
  show ?thesis
  proof (cases "m < 128")
    case True
    note ma = this
    show ?thesis
    proof (cases "n < 128")
      case True
      with ma assms show ?thesis
        by (simp add: utf8_char_def Let_def m_def n_def)
    next
      case False
      with ma assms have "a = char_of (192 + n div 64)"
        by (simp add: utf8_char_def Let_def m_def n_def)
      then have "m = 192 + n div 64"
        using n m eq [of m "192 + n div 64"] ab by simp
      with ma show ?thesis by simp
    qed
  next
    case False
    note ma = this
    show ?thesis
    proof (cases "n < 128")
      case True
      with ma assms have "b = char_of (192 + m div 64)"
        by (simp add: utf8_char_def Let_def m_def n_def)
      then have "n = 192 + m div 64"
        using n m eq [of n "192 + m div 64"] ab by simp
      with True show ?thesis by simp
    next
      case False
      with ma assms have h: "char_of (192 + m div 64) = (char_of (192 + n div 64) :: char)"
        and l: "char_of (128 + m mod 64) = (char_of (128 + n mod 64) :: char)" and r: "xs = ys"
        by (simp_all add: utf8_char_def Let_def m_def n_def)
      from h have "m div 64 = n div 64"
        using m n eq [of "192 + m div 64" "192 + n div 64"] by simp
      moreover from l have "m mod 64 = n mod 64"
        using eq [of "128 + m mod 64" "128 + n mod 64"] by simp
      ultimately have "m = n"
        by (metis div_mult_mod_eq)
      with ab r show ?thesis by simp
    qed
  qed
qed

lemma Buffer_from_utf8_inj: "Buffer_from_utf8 s = Buffer_from_utf8 t \<Longrightarrow> s = t"
proof (induction s arbitrary: t)
  case Nil
  then show ?case
    by (cases t) (auto simp add: Buffer_from_utf8_def utf8_char_def Let_def split: if_splits)
next
  case (Cons a s)
  show ?case
  proof (cases t)
    case Nil
    with Cons.prems show ?thesis
      by (auto simp add: Buffer_from_utf8_def utf8_char_def Let_def split: if_splits)
  next
    case (Cons b t')
    with Cons.prems have "utf8_char a @ Buffer_from_utf8 s = utf8_char b @ Buffer_from_utf8 t'"
      by (simp add: Buffer_from_utf8_def)
    then have "a = b" and "Buffer_from_utf8 s = Buffer_from_utf8 t'"
      using utf8_char_inj by blast+
    with Cons.IH Cons show ?thesis by simp
  qed
qed

subsection \<open>The signature check\<close>

text \<open>A request with the expected signature passes the check and goes on to parsing.\<close>

lemma POST_authentic:
  "signature req = expectedSignature E (text' req) \<Longrightarrow> POST E req = POST_verified E (text' req)"
  by (simp add: POST_def timingSafeEqual_def)

text \<open>
  A signature of 64 bytes that is not the expected one is answered with 400, and the
  handler does nothing but log the failure.
\<close>

lemma POST_mismatch_same_length:
  assumes "length (Buffer_from_utf8 (signature req)) = 64"
    and "signature req \<noteq> expectedSignature E (text' req)"
  shows "POST E req =
           (Respond \<lparr>status = 400, json_body = ErrorBody ''Invalid signature''\<rparr>,
            [Console SignatureFailed])"
proof -
  have "Buffer_from_utf8 (expectedSignature E (text' req)) \<noteq> Buffer_from_utf8 (signature req)"
    using assms(2) Buffer_from_utf8_inj by force
  with assms(1) show ?thesis
    by (simp add: POST_def timingSafeEqual_def length_expected)
qed

text \<open>
  Claim C9. Whenever the signature header is absent (the signature is then the empty
  string), or its value has a UTF-8 length other than 64 bytes, \<open>timingSafeEqual\<close>
  throws; nothing catches it, so the exception leaves the handler: there is no response,
  and nothing was logged or called before.
\<close>

theorem POST_signature_length_uncaught:
  assumes "x_cal_signature_256 req = None \<or> length (Buffer_from_utf8 (signature req)) \<noteq> 64"
  shows "POST E req = (Uncaught RangeError, [])"
proof -
  have "length (Buffer_from_utf8 (signature req)) \<noteq> 64"
    using assms by (auto simp add: signature_def Buffer_from_utf8_def)
  then show ?thesis
    by (simp add: POST_def timingSafeEqual_def length_expected)
qed

theorem POST_signature_length_uncaught_witness:
  "length (Buffer_from_utf8 (signature \<lparr>x_cal_signature_256 = Some ''2e'', text' = ping_text\<rparr>)) = 2
   \<and> POST example_env \<lparr>x_cal_signature_256 = Some ''2e'', text' = ping_text\<rparr>
       = (Uncaught RangeError, [])"
  using POST_signature_length_uncaught
          [of "\<lparr>x_cal_signature_256 = Some ''2e'', text' = ping_text\<rparr>" example_env]
  by (simp add: signature_def Buffer_from_utf8_def utf8_char_def)

text \<open>
  Claim C1. The claim asks for a 400 response on every signature that does not match.
  A request that carries no signature header does not match (the expected signature
  has 64 characters, the supplied one none), and the handler does not respond to it:
  the comparison throws and the exception leaves the handler.
\<close>

theorem POST_absent_signature_no_response:
  "signature \<lparr>x_cal_signature_256 = None, text' = bodyText\<rparr> \<noteq> expectedSignature E bodyText
   \<and> POST E \<lparr>x_cal_signature_256 = None, text' = bodyText\<rparr> = (Uncaught RangeError, [])"
proof -
  have "length (expectedSignature E bodyText) = 64"
    by (simp add: expectedSignature_def length_digest_hex)
  then have "signature \<lparr>x_cal_signature_256 = None, text' = bodyText\<rparr> \<noteq> expectedSignature E bodyText"
    by (auto simp add: signature_def)
  moreover have "Buffer_from_utf8 (signature \<lparr>x_cal_signature_256 = None, text' = bodyText\<rparr>) = []"
    by (simp add: signature_def Buffer_from_utf8_def)
  then have "POST E \<lparr>x_cal_signature_256 = None, text' = bodyText\<rparr> = (Uncaught RangeError, [])"
    by (simp add: POST_def timingSafeEqual_def length_expected)
  ultimately show ?thesis by simp
qed

subsection \<open>Parsing\<close>

lemma example_signature_not_json:
  "expectedSignature example_env ''not json'' =
     ''0000000000000000000000000000000000000000000000000000000000000012''"
  by code_simp

text \<open>
  Claim C4. A request with the expected signature whose body \<open>JSON.parse\<close> rejects is
  answered with 400 and the handler stops: after the parse attempt it only logs the
  failure; no event is dispatched and no collaborator is called.
\<close>

theorem POST_unparsable_body:
  assumes "signature req = expectedSignature E (text' req)"
    and "JSON_parse E (text' req) = None"
  shows "POST E req =
           (Respond \<lparr>status = 400, json_body = ErrorBody ''Invalid payload''\<rparr>,
            [JSONParse (text' req), Console (ParseFailed SyntaxError)])"
  using assms by (simp add: POST_authentic POST_verified_def after_def)

theorem POST_unparsable_body_witness:
  "POST example_env
     (delivery ''0000000000000000000000000000000000000000000000000000000000000012'' ''not json'') =
   (Respond \<lparr>status = 400, json_body = ErrorBody ''Invalid payload''\<rparr>,
    [JSONParse ''not json'', Console (ParseFailed SyntaxError)])"
proof -
  let ?req = "delivery ''0000000000000000000000000000000000000000000000000000000000000012'' ''not json''"
  have auth: "signature ?req = expectedSignature example_env (text' ?req)"
    by (simp add: delivery_def signature_def example_signature_not_json)
  have unparsable: "JSON_parse example_env (text' ?req) = None"
    by (simp add: delivery_def example_env_def booking_text_def ping_text_def no_show_text_def
          no_show_paid_text_def no_show_bare_text_def meeting_text_def meeting_fail_text_def
          meeting_actor_text_def)
  show ?thesis
    using POST_unparsable_body [OF auth unparsable] by (simp add: delivery_def)
qed

subsection \<open>The example deliveries\<close>

text \<open>The signature of each example body, and what the example parser makes of it.\<close>

lemma example_signature_booking_text:
  "expectedSignature example_env booking_text =
     ''000000000000000000000000000000000000000000000000000000000000016b''"
  by code_simp

lemma example_parse_booking_text: "JSON_parse example_env booking_text = Some booking_event"
  by (simp add: example_env_def booking_text_def ping_text_def no_show_text_def
          no_show_paid_text_def no_show_bare_text_def meeting_text_def meeting_fail_text_def
          meeting_actor_text_def)

lemma example_signature_ping_text:
  "expectedSignature example_env ping_text =
     ''000000000000000000000000000000000000000000000000000000000000002e''"
  by code_simp

lemma example_parse_ping_text: "JSON_parse example_env ping_text = Some ping_event"
  by (simp add: example_env_def booking_text_def ping_text_def no_show_text_def
          no_show_paid_text_def no_show_bare_text_def meeting_text_def meeting_fail_text_def
          meeting_actor_text_def)

lemma example_signature_no_show_text:
  "expectedSignature example_env no_show_text =
     ''0000000000000000000000000000000000000000000000000000000000000054''"
  by code_simp

lemma example_parse_no_show_text: "JSON_parse example_env no_show_text = Some no_show_event"
  by (simp add: example_env_def booking_text_def ping_text_def no_show_text_def
          no_show_paid_text_def no_show_bare_text_def meeting_text_def meeting_fail_text_def
          meeting_actor_text_def)

lemma example_signature_no_show_paid_text:
  "expectedSignature example_env no_show_paid_text =
     ''0000000000000000000000000000000000000000000000000000000000000066''"
  by code_simp

lemma example_parse_no_show_paid_text: "JSON_parse example_env no_show_paid_text = Some no_show_paid_event"
  by (simp add: example_env_def booking_text_def ping_text_def no_show_text_def
          no_show_paid_text_def no_show_bare_text_def meeting_text_def meeting_fail_text_def
          meeting_actor_text_def)

lemma example_signature_no_show_bare_text:
  "expectedSignature example_env no_show_bare_text =
     ''0000000000000000000000000000000000000000000000000000000000000047''"
  by code_simp

lemma example_parse_no_show_bare_text: "JSON_parse example_env no_show_bare_text = Some no_show_bare_event"
  by (simp add: example_env_def booking_text_def ping_text_def no_show_text_def
          no_show_paid_text_def no_show_bare_text_def meeting_text_def meeting_fail_text_def
          meeting_actor_text_def)

lemma example_signature_meeting_text:
  "expectedSignature example_env meeting_text =
     ''0000000000000000000000000000000000000000000000000000000000000057''"
  by code_simp

lemma example_parse_meeting_text: "JSON_parse example_env meeting_text = Some meeting_event"
  by (simp add: example_env_def booking_text_def ping_text_def no_show_text_def
          no_show_paid_text_def no_show_bare_text_def meeting_text_def meeting_fail_text_def
          meeting_actor_text_def)

lemma example_signature_meeting_fail_text:
  "expectedSignature example_env meeting_fail_text =
     ''0000000000000000000000000000000000000000000000000000000000000057''"
  by code_simp

lemma example_parse_meeting_fail_text: "JSON_parse example_env meeting_fail_text = Some meeting_fail_event"
  by (simp add: example_env_def booking_text_def ping_text_def no_show_text_def
          no_show_paid_text_def no_show_bare_text_def meeting_text_def meeting_fail_text_def
          meeting_actor_text_def)

lemma example_signature_meeting_actor_text:
  "expectedSignature example_env meeting_actor_text =
     ''000000000000000000000000000000000000000000000000000000000000006a''"
  by code_simp

lemma example_parse_meeting_actor_text:
  "JSON_parse example_env meeting_actor_text = Some meeting_actor_event"
  by (simp add: example_env_def booking_text_def ping_text_def no_show_text_def
          no_show_paid_text_def no_show_bare_text_def meeting_text_def meeting_fail_text_def
          meeting_actor_text_def)

subsection \<open>From the request to the dispatch\<close>

text \<open>
  An authentic request whose body parses to a value with readable properties and a
  printable kind reaches the \<open>switch\<close>; the response is what \<open>settle\<close> makes of the
  way the \<open>switch\<close> ends.
\<close>

lemma POST_dispatched:
  assumes "signature req = expectedSignature E (text' req)"
    and "JSON_parse E (text' req) = Some event"
    and "get_prop (Some event) ''triggerEvent'' = Inr k"
    and "get_prop (Some event) ''payload'' = Inr payload"
    and "\<not> template_throws k"
  shows "POST E req =
           after [JSONParse (text' req), Console (ReceivedEvent k payload), Console (ReceivedKind k)]
             (settle k (dispatch E k payload))"
  using assms by (simp add: POST_authentic POST_verified_def POST_event_def after_def)

text \<open>Once the \<open>switch\<close> is reached, the handler always responds.\<close>

lemma POST_dispatched_responds:
  assumes "signature req = expectedSignature E (text' req)"
    and "JSON_parse E (text' req) = Some event"
    and "get_prop (Some event) ''triggerEvent'' = Inr k"
    and "get_prop (Some event) ''payload'' = Inr payload"
    and "\<not> template_throws k"
  shows "\<exists>r. fst (POST E req) = Respond r"
proof -
  obtain c tr where "dispatch E k payload = (c, tr)"
    by (cases "dispatch E k payload")
  then show ?thesis
    by (cases c) (simp_all add: POST_dispatched [OF assms] after_def)
qed

text \<open>
  Two deliveries never reach the \<open>switch\<close>. A body that is the JSON text \<open>null\<close>
  parses, and the property read of line 64 throws. A kind that cannot be printed (an
  object with a member \<open>toString\<close>, or an array holding one) makes the template literal
  of line 69 throw. Neither is inside a \<open>try\<close>.
\<close>

lemma POST_null_event:
  assumes "signature req = expectedSignature E (text' req)"
    and "JSON_parse E (text' req) = Some JNull"
  shows "POST E req = (Uncaught TypeError, [JSONParse (text' req)])"
  using assms by (simp add: POST_authentic POST_verified_def POST_event_def after_def)

lemma POST_unprintable_kind:
  assumes "signature req = expectedSignature E (text' req)"
    and "JSON_parse E (text' req) = Some event"
    and "get_prop (Some event) ''triggerEvent'' = Inr k"
    and "get_prop (Some event) ''payload'' = Inr payload"
    and "template_throws k"
  shows "POST E req =
           (Uncaught TypeError, [JSONParse (text' req), Console (ReceivedEvent k payload)])"
  using assms by (simp add: POST_authentic POST_verified_def POST_event_def after_def)

lemma get_prop_other:
  "get_prop m k = Inr x \<Longrightarrow> \<exists>y. get_prop m k' = Inr y"
  by (cases "(m, k)" rule: get_prop.cases) auto

text \<open>Where one property of the metadata can be read, every property can.\<close>

lemma metadata_prop_other:
  "metadata_prop payload k = Inr x \<Longrightarrow> \<exists>y. metadata_prop payload k' = Inr y"
  by (auto simp add: metadata_prop_def split: sum.splits dest: get_prop_other)

text \<open>A metadata object without a member \<open>k\<close> gives \<open>undefined\<close>.\<close>

lemma metadata_prop_absent:
  "get_prop payload ''metadata'' = Inr (Some (JObj kvs)) \<Longrightarrow> k \<notin> set (map fst kvs) \<Longrightarrow>
   metadata_prop payload k = Inr None"
  by (simp add: metadata_prop_def map_of_eq_None_iff)

text \<open>Without metadata the read throws.\<close>

lemma metadata_prop_missing:
  "get_prop payload ''metadata'' = Inr None \<Longrightarrow> metadata_prop payload k = Inl TypeError"
  by (simp add: metadata_prop_def)

subsection \<open>Booking created\<close>

lemma dispatch_booking:
  "dispatch E (Some (JStr ''BOOKING_CREATED'')) payload =
     (Return (fst (storeBooking E payload)), snd (storeBooking E payload))"
  by (simp add: dispatch_def split: prod.splits)

lemma POST_booking_run:
  assumes "signature req = expectedSignature E (text' req)"
    and "JSON_parse E (text' req) = Some event"
    and "get_prop (Some event) ''triggerEvent'' = Inr (Some (JStr ''BOOKING_CREATED''))"
    and "get_prop (Some event) ''payload'' = Inr payload"
  shows "POST E req =
           (Respond (fst (storeBooking E payload)),
            [JSONParse (text' req),
             Console (ReceivedEvent (Some (JStr ''BOOKING_CREATED'')) payload),
             Console (ReceivedKind (Some (JStr ''BOOKING_CREATED'')))] @ snd (storeBooking E payload))"
  using POST_dispatched [OF assms] by (simp add: dispatch_booking after_def)




text \<open>
  Validated data without an attendee: the argument of \<open>createLocalBooking\<close> cannot be
  built, nothing is persisted and the response is 500.
\<close>

lemma storeBooking_no_attendee:
  "safeParse E payload = Inr d \<Longrightarrow> attendees d = [] \<Longrightarrow>
   storeBooking E payload =
     (\<lparr>status = 500, json_body = ErrorBody ''Failed to process booking''\<rparr>,
      [Console ProcessingBooking, SafeParse payload,
       Console (StoreFailed TypeError), Console (RawPayload payload)])"
  by (simp add: storeBooking_def after_def)

lemma storeBooking_persist_calls:
  "persist_calls (snd (storeBooking E payload)) =
     (case safeParse E payload of
        Inl err \<Rightarrow> []
      | Inr d \<Rightarrow> (case attendees d of [] \<Rightarrow> [] | a # rest \<Rightarrow> [booking_of E payload d a]))"
  by (simp add: storeBooking_def after_def split: sum.splits list.splits)



text \<open>
  Claim C3. For a BOOKING_CREATED event whose payload the schema accepts, with a valid
  start time \<open>T\<close> (in milliseconds) and a duration of \<open>D\<close> minutes, the record given to
  the persistence call starts at \<open>T\<close>, lasts \<open>D\<close> minutes and ends at the \<open>Date\<close> made
  from \<open>T + D * 60000\<close> milliseconds: exactly that instant, whenever it is one that a
  \<open>Date\<close> can hold.
\<close>

theorem POST_booking_created_end_time:
  assumes auth: "signature req = expectedSignature E (text' req)"
    and parsed: "JSON_parse E (text' req) = Some event"
    and kind: "get_prop (Some event) ''triggerEvent'' = Inr (Some (JStr ''BOOKING_CREATED''))"
    and payload: "get_prop (Some event) ''payload'' = Inr payload"
    and valid: "safeParse E payload = Inr d"
    and att: "attendees d = a # rest"
    and start: "Date_of E (startTime d) = Some T"
  shows "persist_calls (snd (POST E req)) = [booking_of E payload d a]
     \<and> nb_startTime (booking_of E payload d a) = Some T
     \<and> duration (booking_of E payload d a) = length' d
     \<and> endTime (booking_of E payload d a) = new_Date (T + length' d * 60000)
     \<and> (\<bar>T + length' d * 60000\<bar> \<le> 8640000000000000 \<longrightarrow>
          endTime (booking_of E payload d a) = Some (T + length' d * 60000))"
proof -
  have "persist_calls (snd (POST E req)) = [booking_of E payload d a]"
    using valid att
    by (simp add: POST_booking_run [OF auth parsed kind payload] storeBooking_persist_calls)
  moreover have "endTime (booking_of E payload d a) = new_Date (T + length' d * 60000)"
    using start by (simp add: booking_of_def)
  moreover have "nb_startTime (booking_of E payload d a) = Some T"
    using start by (simp add: booking_of_def)
  moreover have "duration (booking_of E payload d a) = length' d"
    by (simp add: booking_of_def Let_def)
  ultimately show ?thesis
    by (simp add: new_Date_def)
qed

theorem POST_booking_created_end_time_witness:
  "persist_calls (snd (POST example_env
         (delivery ''000000000000000000000000000000000000000000000000000000000000016b'' booking_text))) =
     [booking_of example_env (Some booking_payload_json) booking_data booking_attendee]
   \<and> nb_startTime (booking_of example_env (Some booking_payload_json) booking_data booking_attendee)
       = Some 1735725600000
   \<and> duration (booking_of example_env (Some booking_payload_json) booking_data booking_attendee) = 30
   \<and> endTime (booking_of example_env (Some booking_payload_json) booking_data booking_attendee)
       = Some 1735727400000"
proof -
  let ?req = "delivery ''000000000000000000000000000000000000000000000000000000000000016b'' booking_text"
  have auth: "signature ?req = expectedSignature example_env (text' ?req)"
    by (simp add: delivery_def signature_def example_signature_booking_text)
  have parsed: "JSON_parse example_env (text' ?req) = Some booking_event"
    by (simp add: delivery_def example_parse_booking_text)
  have kind: "get_prop (Some booking_event) ''triggerEvent'' = Inr (Some (JStr ''BOOKING_CREATED''))"
    by (simp add: booking_event_def)
  have payload: "get_prop (Some booking_event) ''payload'' = Inr (Some (booking_payload_json))"
    by (simp add: booking_event_def)
  have valid: "safeParse example_env (Some booking_payload_json) = Inr booking_data"
    by (simp add: example_env_def)
  have att: "attendees booking_data = booking_attendee # []"
    by (simp add: booking_data_def)
  have start: "Date_of example_env (startTime booking_data) = Some 1735725600000"
    by (simp add: example_env_def booking_data_def)
  have len: "length' booking_data = 30"
    by (simp add: booking_data_def)
  from POST_booking_created_end_time [OF auth parsed kind payload valid att start]
  show ?thesis by (simp add: len new_Date_def)
qed

subsection \<open>No-show\<close>

lemma dispatch_no_show:
  "dispatch E (Some (JStr ''AFTER_HOSTS_CAL_VIDEO_NO_SHOW'')) payload =
     (case metadata_prop payload ''paymentId'' of
        Inl e \<Rightarrow> (Throw e, [])
      | Inr pid \<Rightarrow>
          if \<not> truthy pid then
            (Return \<lparr>status = 400, json_body = ErrorBody ''Missing paymentId''\<rparr>,
             [Console MissingPaymentId])
          else
            (case refundStripePaymentIntent E pid of
               Inl err \<Rightarrow>
                 (Return \<lparr>status = 500, json_body = ErrorBody ''Failed to process refund''\<rparr>,
                  [RefundStripePaymentIntent pid, Console (RefundFailed pid err)])
             | Inr u \<Rightarrow> (Break, [RefundStripePaymentIntent pid])))"
  by (simp add: dispatch_def)

text \<open>
  A no-show event whose metadata can be read, with \<open>pid\<close> the value of its
  \<open>paymentId\<close>: when \<open>pid\<close> is no payment id (it is absent, \<open>null\<close>, empty or
  otherwise falsy) the response is 400 and no refund is attempted; otherwise the refund
  action is called once, with \<open>pid\<close>; when that call fails the response is 500 with the
  message of the refund branch, which is not the body of the general dispatch failure;
  when it succeeds the event is acknowledged.
\<close>

lemma POST_no_show_refund:
  assumes auth: "signature req = expectedSignature E (text' req)"
    and parsed: "JSON_parse E (text' req) = Some event"
    and kind: "get_prop (Some event) ''triggerEvent'' = Inr (Some (JStr ''AFTER_HOSTS_CAL_VIDEO_NO_SHOW''))"
    and payload: "get_prop (Some event) ''payload'' = Inr payload"
    and meta: "metadata_prop payload ''paymentId'' = Inr pid"
  shows
    "(\<not> truthy pid \<longrightarrow>
        fst (POST E req) = Respond \<lparr>status = 400, json_body = ErrorBody ''Missing paymentId''\<rparr>
        \<and> refund_calls (snd (POST E req)) = [])
     \<and> (truthy pid \<longrightarrow> refund_calls (snd (POST E req)) = [pid])
     \<and> (\<forall>err. truthy pid \<and> refundStripePaymentIntent E pid = Inl err \<longrightarrow>
          fst (POST E req) = Respond \<lparr>status = 500, json_body = ErrorBody ''Failed to process refund''\<rparr>
          \<and> fst (POST E req) \<noteq> Respond \<lparr>status = 500, json_body = ErrorBody ''Failed to process webhook''\<rparr>)
     \<and> (truthy pid \<and> refundStripePaymentIntent E pid = Inr () \<longrightarrow>
          fst (POST E req) = Respond \<lparr>status = 200, json_body = Received\<rparr>)"
proof -
  have printable: "\<not> template_throws (Some (JStr ''AFTER_HOSTS_CAL_VIDEO_NO_SHOW''))"
    by simp
  note run = POST_dispatched [OF auth parsed kind payload printable]
  have "fst (POST E req) = Respond \<lparr>status = 400, json_body = ErrorBody ''Missing paymentId''\<rparr>
        \<and> refund_calls (snd (POST E req)) = []" if "\<not> truthy pid"
    using that meta by (simp add: run dispatch_no_show after_def)
  moreover have "refund_calls (snd (POST E req)) = [pid]" if "truthy pid"
    using that meta by (simp add: run dispatch_no_show after_def split: sum.splits)
  moreover have "fst (POST E req) = Respond \<lparr>status = 500, json_body = ErrorBody ''Failed to process refund''\<rparr>
          \<and> fst (POST E req) \<noteq> Respond \<lparr>status = 500, json_body = ErrorBody ''Failed to process webhook''\<rparr>"
    if "truthy pid" "refundStripePaymentIntent E pid = Inl err" for err
    using that meta by (simp add: run dispatch_no_show after_def)
  moreover have "fst (POST E req) = Respond \<lparr>status = 200, json_body = Received\<rparr>"
    if "truthy pid" "refundStripePaymentIntent E pid = Inr ()"
    using that meta by (simp add: run dispatch_no_show after_def)
  ultimately show ?thesis by blast
qed

lemma POST_no_show_refund_example:
  "fst (POST example_env (delivery ''0000000000000000000000000000000000000000000000000000000000000054'' no_show_text)) =
     Respond \<lparr>status = 400, json_body = ErrorBody ''Missing paymentId''\<rparr>
   \<and> refund_calls (snd (POST example_env (delivery ''0000000000000000000000000000000000000000000000000000000000000054'' no_show_text))) = []
   \<and> refund_calls (snd (POST example_env (delivery ''0000000000000000000000000000000000000000000000000000000000000066'' no_show_paid_text))) =
       [Some (JStr ''pi_1'')]
   \<and> fst (POST example_env (delivery ''0000000000000000000000000000000000000000000000000000000000000066'' no_show_paid_text)) =
       Respond \<lparr>status = 200, json_body = Received\<rparr>"
proof -
  have auth: "signature (delivery ''0000000000000000000000000000000000000000000000000000000000000054'' no_show_text) =
      expectedSignature example_env (text' (delivery ''0000000000000000000000000000000000000000000000000000000000000054'' no_show_text))"
    by (simp add: delivery_def signature_def example_signature_no_show_text)
  have parsed: "JSON_parse example_env (text' (delivery ''0000000000000000000000000000000000000000000000000000000000000054'' no_show_text)) = Some no_show_event"
    by (simp add: delivery_def example_parse_no_show_text)
  have kind: "get_prop (Some no_show_event) ''triggerEvent'' = Inr (Some (JStr ''AFTER_HOSTS_CAL_VIDEO_NO_SHOW''))"
    by (simp add: no_show_event_def)
  have payload: "get_prop (Some no_show_event) ''payload'' = Inr (Some (JObj [(''metadata'', JObj [])]))"
    by (simp add: no_show_event_def)
  have meta: "metadata_prop (Some (JObj [(''metadata'', JObj [])])) ''paymentId'' = Inr None"
    by (rule metadata_prop_absent [of _ "[]"]) simp_all
  have auth': "signature (delivery ''0000000000000000000000000000000000000000000000000000000000000066'' no_show_paid_text) =
      expectedSignature example_env (text' (delivery ''0000000000000000000000000000000000000000000000000000000000000066'' no_show_paid_text))"
    by (simp add: delivery_def signature_def example_signature_no_show_paid_text)
  have parsed': "JSON_parse example_env (text' (delivery ''0000000000000000000000000000000000000000000000000000000000000066'' no_show_paid_text)) = Some no_show_paid_event"
    by (simp add: delivery_def example_parse_no_show_paid_text)
  have kind': "get_prop (Some no_show_paid_event) ''triggerEvent'' = Inr (Some (JStr ''AFTER_HOSTS_CAL_VIDEO_NO_SHOW''))"
    by (simp add: no_show_paid_event_def)
  have payload': "get_prop (Some no_show_paid_event) ''payload'' = Inr (Some (JObj [(''metadata'', JObj [(''paymentId'', JStr ''pi_1'')])]))"
    by (simp add: no_show_paid_event_def)
  have meta': "metadata_prop (Some (JObj [(''metadata'', JObj [(''paymentId'', JStr ''pi_1'')])]))
                 ''paymentId'' = Inr (Some (JStr ''pi_1''))"
    by (simp add: metadata_prop_def)
  have refunded: "refundStripePaymentIntent example_env (Some (JStr ''pi_1'')) = Inr ()"
    by (simp add: example_env_def)
  from POST_no_show_refund [OF auth parsed kind payload meta]
    POST_no_show_refund [OF auth' parsed' kind' payload' meta'] refunded
  show ?thesis by simp
qed

text \<open>
  Claim C5. The claim asks for a 400 response to every no-show event that carries no
  payment id. A no-show event whose payload has no readable metadata carries none, and
  the handler does not answer it with 400: the test of line 78 reads a property of
  \<open>undefined\<close>, the read throws inside the \<open>try\<close>, and the answer is 500 with the
  body of the general dispatch failure. No refund is attempted.
\<close>

theorem POST_no_show_without_metadata:
  assumes auth: "signature req = expectedSignature E (text' req)"
    and parsed: "JSON_parse E (text' req) = Some event"
    and kind: "get_prop (Some event) ''triggerEvent'' = Inr (Some (JStr ''AFTER_HOSTS_CAL_VIDEO_NO_SHOW''))"
    and payload: "get_prop (Some event) ''payload'' = Inr payload"
    and unreadable: "metadata_prop payload ''paymentId'' = Inl e"
  shows "POST E req =
           (Respond \<lparr>status = 500, json_body = ErrorBody ''Failed to process webhook''\<rparr>,
            [JSONParse (text' req),
             Console (ReceivedEvent (Some (JStr ''AFTER_HOSTS_CAL_VIDEO_NO_SHOW'')) payload),
             Console (ReceivedKind (Some (JStr ''AFTER_HOSTS_CAL_VIDEO_NO_SHOW''))),
             Console (DispatchError (Some (JStr ''AFTER_HOSTS_CAL_VIDEO_NO_SHOW'')) e)])
     \<and> fst (POST E req) \<noteq> Respond \<lparr>status = 400, json_body = ErrorBody ''Missing paymentId''\<rparr>
     \<and> refund_calls (snd (POST E req)) = []"
proof -
  have printable: "\<not> template_throws (Some (JStr ''AFTER_HOSTS_CAL_VIDEO_NO_SHOW''))"
    by simp
  have thrown: "dispatch E (Some (JStr ''AFTER_HOSTS_CAL_VIDEO_NO_SHOW'')) payload = (Throw e, [])"
    using unreadable by (simp add: dispatch_no_show)
  show ?thesis
    by (simp add: POST_dispatched [OF auth parsed kind payload printable] thrown after_def)
qed

theorem POST_no_show_without_metadata_witness:
  "metadata_prop (Some (JObj [])) ''paymentId'' = Inl TypeError
   \<and> fst (POST example_env (delivery ''0000000000000000000000000000000000000000000000000000000000000047'' no_show_bare_text)) =
       Respond \<lparr>status = 500, json_body = ErrorBody ''Failed to process webhook''\<rparr>
   \<and> fst (POST example_env (delivery ''0000000000000000000000000000000000000000000000000000000000000047'' no_show_bare_text)) \<noteq>
       Respond \<lparr>status = 400, json_body = ErrorBody ''Missing paymentId''\<rparr>
   \<and> refund_calls (snd (POST example_env (delivery ''0000000000000000000000000000000000000000000000000000000000000047'' no_show_bare_text))) = []"
proof -
  have auth: "signature (delivery ''0000000000000000000000000000000000000000000000000000000000000047'' no_show_bare_text) =
      expectedSignature example_env (text' (delivery ''0000000000000000000000000000000000000000000000000000000000000047'' no_show_bare_text))"
    by (simp add: delivery_def signature_def example_signature_no_show_bare_text)
  have parsed: "JSON_parse example_env (text' (delivery ''0000000000000000000000000000000000000000000000000000000000000047'' no_show_bare_text)) = Some no_show_bare_event"
    by (simp add: delivery_def example_parse_no_show_bare_text)
  have kind: "get_prop (Some no_show_bare_event) ''triggerEvent'' = Inr (Some (JStr ''AFTER_HOSTS_CAL_VIDEO_NO_SHOW''))"
    by (simp add: no_show_bare_event_def)
  have payload: "get_prop (Some no_show_bare_event) ''payload'' = Inr (Some (JObj []))"
    by (simp add: no_show_bare_event_def)
  have unreadable: "metadata_prop (Some (JObj [])) ''paymentId'' = Inl TypeError"
    by (simp add: metadata_prop_def)
  from POST_no_show_without_metadata [OF auth parsed kind payload unreadable] unreadable
  show ?thesis by simp
qed

subsection \<open>Meeting ended\<close>

lemma dispatch_meeting_ended:
  "dispatch E (Some (JStr ''MEETING_ENDED'')) payload =
     after [Console MeetingEnded, Console (MeetingDetails payload)]
       (case metadata_prop payload ''mentorUserId'' of
          Inl e \<Rightarrow> (Throw e, [])
        | Inr mentor \<Rightarrow>
            if truthy mentor then
              (case metadata_prop payload ''actorUserId'' of
                 Inl e \<Rightarrow> (Throw e, [])
               | Inr actor \<Rightarrow>
                   (let ev = \<lparr>eventType = ''COMPLETED_BOOKING'', targetUserId = mentor,
                              actorUserId = or_null actor\<rparr>
                    in case createAnalyticsEvent E ev of
                         Inl e \<Rightarrow> (Throw e, [CreateAnalyticsEvent ev])
                       | Inr u \<Rightarrow> (Break, [CreateAnalyticsEvent ev])))
            else (Break, []))"
  by (simp add: dispatch_def)

text \<open>\<open>v ?? null\<close> keeps every value but \<open>undefined\<close>, which becomes \<open>null\<close>.\<close>

lemma or_null_case: "or_null a = (case a of None \<Rightarrow> JNull | Some v \<Rightarrow> v)"
  by (cases a) simp_all

text \<open>
  Claim C6. For a MEETING_ENDED event: when the metadata holds a mentor user id (a truthy
  \<open>mentorUserId\<close>), the analytics collaborator is called exactly once, with the kind
  COMPLETED_BOOKING and that id as target; the actor of the call is the \<open>actorUserId\<close>
  of the metadata when there is one, and \<open>null\<close> when there is none. When the metadata
  holds no mentor user id, or there is no metadata, the collaborator is not called.
\<close>

theorem POST_meeting_ended_analytics:
  assumes auth: "signature req = expectedSignature E (text' req)"
    and parsed: "JSON_parse E (text' req) = Some event"
    and kind: "get_prop (Some event) ''triggerEvent'' = Inr (Some (JStr ''MEETING_ENDED''))"
    and payload: "get_prop (Some event) ''payload'' = Inr payload"
  shows
    "(\<forall>mentor. metadata_prop payload ''mentorUserId'' = Inr mentor \<and> truthy mentor \<longrightarrow>
        (\<exists>actor. metadata_prop payload ''actorUserId'' = Inr actor
           \<and> analytics_calls (snd (POST E req)) =
               [\<lparr>eventType = ''COMPLETED_BOOKING'', targetUserId = mentor,
                 actorUserId = (case actor of None \<Rightarrow> JNull | Some v \<Rightarrow> v)\<rparr>]))
     \<and> (\<forall>mentor v. metadata_prop payload ''mentorUserId'' = Inr mentor \<and> truthy mentor
           \<and> metadata_prop payload ''actorUserId'' = Inr (Some v) \<longrightarrow>
          analytics_calls (snd (POST E req)) =
            [\<lparr>eventType = ''COMPLETED_BOOKING'', targetUserId = mentor, actorUserId = v\<rparr>])
     \<and> (\<forall>mentor. metadata_prop payload ''mentorUserId'' = Inr mentor \<and> truthy mentor
           \<and> metadata_prop payload ''actorUserId'' = Inr None \<longrightarrow>
          analytics_calls (snd (POST E req)) =
            [\<lparr>eventType = ''COMPLETED_BOOKING'', targetUserId = mentor, actorUserId = JNull\<rparr>])
     \<and> ((\<forall>mentor. metadata_prop payload ''mentorUserId'' = Inr mentor \<longrightarrow> \<not> truthy mentor) \<longrightarrow>
          analytics_calls (snd (POST E req)) = [])"
proof -
  have printable: "\<not> template_throws (Some (JStr ''MEETING_ENDED''))"
    by simp
  note run = POST_dispatched [OF auth parsed kind payload printable]
  have call: "analytics_calls (snd (POST E req)) =
               [\<lparr>eventType = ''COMPLETED_BOOKING'', targetUserId = mentor,
                 actorUserId = (case actor of None \<Rightarrow> JNull | Some v \<Rightarrow> v)\<rparr>]"
    if "metadata_prop payload ''mentorUserId'' = Inr mentor" and "truthy mentor"
      and "metadata_prop payload ''actorUserId'' = Inr actor" for mentor actor
    using that
    by (simp add: run dispatch_meeting_ended after_def Let_def or_null_case split: sum.splits)
  have one: "\<exists>actor. metadata_prop payload ''actorUserId'' = Inr actor
           \<and> analytics_calls (snd (POST E req)) =
               [\<lparr>eventType = ''COMPLETED_BOOKING'', targetUserId = mentor,
                 actorUserId = (case actor of None \<Rightarrow> JNull | Some v \<Rightarrow> v)\<rparr>]"
    if m: "metadata_prop payload ''mentorUserId'' = Inr mentor" and t: "truthy mentor" for mentor
  proof -
    from metadata_prop_other [OF m] obtain actor
      where a: "metadata_prop payload ''actorUserId'' = Inr actor" by blast
    from call [OF m t a] a show ?thesis by blast
  qed
  have given: "analytics_calls (snd (POST E req)) =
            [\<lparr>eventType = ''COMPLETED_BOOKING'', targetUserId = mentor, actorUserId = v\<rparr>]"
    if "metadata_prop payload ''mentorUserId'' = Inr mentor" and "truthy mentor"
      and "metadata_prop payload ''actorUserId'' = Inr (Some v)" for mentor v
    using call [OF that] by simp
  have absent: "analytics_calls (snd (POST E req)) =
            [\<lparr>eventType = ''COMPLETED_BOOKING'', targetUserId = mentor, actorUserId = JNull\<rparr>]"
    if "metadata_prop payload ''mentorUserId'' = Inr mentor" and "truthy mentor"
      and "metadata_prop payload ''actorUserId'' = Inr None" for mentor
    using call [OF that] by simp
  have none: "analytics_calls (snd (POST E req)) = []"
    if "\<forall>mentor. metadata_prop payload ''mentorUserId'' = Inr mentor \<longrightarrow> \<not> truthy mentor"
    using that by (simp add: run dispatch_meeting_ended after_def split: sum.splits)
  from one given absent none show ?thesis by blast
qed

theorem POST_meeting_ended_analytics_witness:
  "analytics_calls (snd (POST example_env (delivery ''000000000000000000000000000000000000000000000000000000000000006a'' meeting_actor_text))) =
     [\<lparr>eventType = ''COMPLETED_BOOKING'', targetUserId = Some (JStr ''u1''),
       actorUserId = JStr ''u9''\<rparr>]
   \<and> analytics_calls (snd (POST example_env (delivery ''0000000000000000000000000000000000000000000000000000000000000057'' meeting_text))) =
     [\<lparr>eventType = ''COMPLETED_BOOKING'', targetUserId = Some (JStr ''u1''), actorUserId = JNull\<rparr>]"
proof -
  have auth: "signature (delivery ''000000000000000000000000000000000000000000000000000000000000006a'' meeting_actor_text) =
      expectedSignature example_env (text' (delivery ''000000000000000000000000000000000000000000000000000000000000006a'' meeting_actor_text))"
    by (simp add: delivery_def signature_def example_signature_meeting_actor_text)
  have parsed: "JSON_parse example_env (text' (delivery ''000000000000000000000000000000000000000000000000000000000000006a'' meeting_actor_text)) =
      Some meeting_actor_event"
    by (simp add: delivery_def example_parse_meeting_actor_text)
  have kind: "get_prop (Some meeting_actor_event) ''triggerEvent'' = Inr (Some (JStr ''MEETING_ENDED''))"
    by (simp add: meeting_actor_event_def)
  have payload: "get_prop (Some meeting_actor_event) ''payload'' =
      Inr (Some (JObj [(''metadata'', JObj [(''mentorUserId'', JStr ''u1''),
                                               (''actorUserId'', JStr ''u9'')])]))"
    by (simp add: meeting_actor_event_def)
  have mentor: "metadata_prop (Some (JObj [(''metadata'', JObj [(''mentorUserId'', JStr ''u1''),
                                               (''actorUserId'', JStr ''u9'')])]))
                  ''mentorUserId'' = Inr (Some (JStr ''u1''))"
    by (simp add: metadata_prop_def)
  have actor: "metadata_prop (Some (JObj [(''metadata'', JObj [(''mentorUserId'', JStr ''u1''),
                                               (''actorUserId'', JStr ''u9'')])]))
                  ''actorUserId'' = Inr (Some (JStr ''u9''))"
    by (simp add: metadata_prop_def)
  have auth': "signature (delivery ''0000000000000000000000000000000000000000000000000000000000000057'' meeting_text) =
      expectedSignature example_env (text' (delivery ''0000000000000000000000000000000000000000000000000000000000000057'' meeting_text))"
    by (simp add: delivery_def signature_def example_signature_meeting_text)
  have parsed': "JSON_parse example_env (text' (delivery ''0000000000000000000000000000000000000000000000000000000000000057'' meeting_text)) =
      Some meeting_event"
    by (simp add: delivery_def example_parse_meeting_text)
  have kind': "get_prop (Some meeting_event) ''triggerEvent'' = Inr (Some (JStr ''MEETING_ENDED''))"
    by (simp add: meeting_event_def)
  have payload': "get_prop (Some meeting_event) ''payload'' =
      Inr (Some (JObj [(''metadata'', JObj [(''mentorUserId'', JStr ''u1'')])]))"
    by (simp add: meeting_event_def)
  have mentor': "metadata_prop (Some (JObj [(''metadata'', JObj [(''mentorUserId'', JStr ''u1'')])]))
                  ''mentorUserId'' = Inr (Some (JStr ''u1''))"
    by (simp add: metadata_prop_def)
  have actor': "metadata_prop (Some (JObj [(''metadata'', JObj [(''mentorUserId'', JStr ''u1'')])]))
                  ''actorUserId'' = Inr None"
    by (simp add: metadata_prop_def)
  have present: "truthy (Some (JStr ''u1''))"
    by simp
  from POST_meeting_ended_analytics [OF auth parsed kind payload] mentor present actor
  have given: "analytics_calls (snd (POST example_env
                  (delivery ''000000000000000000000000000000000000000000000000000000000000006a'' meeting_actor_text))) =
     [\<lparr>eventType = ''COMPLETED_BOOKING'', targetUserId = Some (JStr ''u1''),
       actorUserId = JStr ''u9''\<rparr>]"
    by blast
  from POST_meeting_ended_analytics [OF auth' parsed' kind' payload'] mentor' present actor'
  have absent: "analytics_calls (snd (POST example_env
                  (delivery ''0000000000000000000000000000000000000000000000000000000000000057'' meeting_text))) =
     [\<lparr>eventType = ''COMPLETED_BOOKING'', targetUserId = Some (JStr ''u1''), actorUserId = JNull\<rparr>]"
    by blast
  from given absent show ?thesis by simp
qed

text \<open>
  Claim C10. For a MEETING_ENDED event with a mentor user id, the analytics call is made
  inside the \<open>try\<close> and its result decides the response: when the call throws, the
  handler answers 500 with the body of the general dispatch failure, after logging the
  failure with the event kind.
\<close>

theorem POST_analytics_failure:
  assumes auth: "signature req = expectedSignature E (text' req)"
    and parsed: "JSON_parse E (text' req) = Some event"
    and kind: "get_prop (Some event) ''triggerEvent'' = Inr (Some (JStr ''MEETING_ENDED''))"
    and payload: "get_prop (Some event) ''payload'' = Inr payload"
    and mentor: "metadata_prop payload ''mentorUserId'' = Inr mentor"
    and present: "truthy mentor"
    and actor: "metadata_prop payload ''actorUserId'' = Inr actor"
    and fails: "createAnalyticsEvent E \<lparr>eventType = ''COMPLETED_BOOKING'', targetUserId = mentor,
                  actorUserId = or_null actor\<rparr> = Inl e"
  shows "POST E req =
           (Respond \<lparr>status = 500, json_body = ErrorBody ''Failed to process webhook''\<rparr>,
            [JSONParse (text' req),
             Console (ReceivedEvent (Some (JStr ''MEETING_ENDED'')) payload),
             Console (ReceivedKind (Some (JStr ''MEETING_ENDED''))),
             Console MeetingEnded,
             Console (MeetingDetails payload),
             CreateAnalyticsEvent \<lparr>eventType = ''COMPLETED_BOOKING'', targetUserId = mentor,
                  actorUserId = or_null actor\<rparr>,
             Console (DispatchError (Some (JStr ''MEETING_ENDED'')) e)])"
proof -
  have printable: "\<not> template_throws (Some (JStr ''MEETING_ENDED''))"
    by simp
  show ?thesis
    using mentor present actor fails
    by (simp add: POST_dispatched [OF auth parsed kind payload printable]
          dispatch_meeting_ended after_def)
qed

theorem POST_analytics_failure_witness:
  "POST example_env (delivery ''0000000000000000000000000000000000000000000000000000000000000057'' meeting_fail_text) =
     (Respond \<lparr>status = 500, json_body = ErrorBody ''Failed to process webhook''\<rparr>,
      [JSONParse meeting_fail_text,
       Console (ReceivedEvent (Some (JStr ''MEETING_ENDED''))
                  (Some (JObj [(''metadata'', JObj [(''mentorUserId'', JStr ''u2'')])]))),
       Console (ReceivedKind (Some (JStr ''MEETING_ENDED''))),
       Console MeetingEnded,
       Console (MeetingDetails (Some (JObj [(''metadata'', JObj [(''mentorUserId'', JStr ''u2'')])]))),
       CreateAnalyticsEvent \<lparr>eventType = ''COMPLETED_BOOKING'', targetUserId = Some (JStr ''u2''),
                  actorUserId = JNull\<rparr>,
       Console (DispatchError (Some (JStr ''MEETING_ENDED'')) (Failure ''analytics unavailable''))])"
proof -
  have auth: "signature (delivery ''0000000000000000000000000000000000000000000000000000000000000057'' meeting_fail_text) =
      expectedSignature example_env (text' (delivery ''0000000000000000000000000000000000000000000000000000000000000057'' meeting_fail_text))"
    by (simp add: delivery_def signature_def example_signature_meeting_fail_text)
  have parsed: "JSON_parse example_env (text' (delivery ''0000000000000000000000000000000000000000000000000000000000000057'' meeting_fail_text)) = Some meeting_fail_event"
    by (simp add: delivery_def example_parse_meeting_fail_text)
  have kind: "get_prop (Some meeting_fail_event) ''triggerEvent'' = Inr (Some (JStr ''MEETING_ENDED''))"
    by (simp add: meeting_fail_event_def)
  have payload: "get_prop (Some meeting_fail_event) ''payload'' = Inr (Some (JObj [(''metadata'', JObj [(''mentorUserId'', JStr ''u2'')])]))"
    by (simp add: meeting_fail_event_def)
  have mentor: "metadata_prop (Some (JObj [(''metadata'', JObj [(''mentorUserId'', JStr ''u2'')])]))
                  ''mentorUserId'' = Inr (Some (JStr ''u2''))"
    by (simp add: metadata_prop_def)
  have present: "truthy (Some (JStr ''u2''))"
    by simp
  have actor: "metadata_prop (Some (JObj [(''metadata'', JObj [(''mentorUserId'', JStr ''u2'')])]))
                  ''actorUserId'' = Inr None"
    by (simp add: metadata_prop_def)
  have fails: "createAnalyticsEvent example_env
                 \<lparr>eventType = ''COMPLETED_BOOKING'', targetUserId = Some (JStr ''u2''),
                   actorUserId = or_null None\<rparr> = Inl (Failure ''analytics unavailable'')"
    by (simp add: example_env_def)
  from POST_analytics_failure [OF auth parsed kind payload mentor present actor fails]
  show ?thesis by (simp add: delivery_def)
qed

subsection \<open>The other kinds\<close>

lemma dispatch_other:
  assumes "k \<noteq> Some (JStr ''BOOKING_CREATED'')"
    and "k \<noteq> Some (JStr ''AFTER_HOSTS_CAL_VIDEO_NO_SHOW'')"
    and "k \<noteq> Some (JStr ''MEETING_ENDED'')"
  shows "dispatch E k payload =
     (Break,
      if k = Some (JStr ''RECORDING_TRANSCRIPTION_GENERATED'') then
        [Console TranscriptionGenerated, Console (TranscriptionText payload)]
      else if k = Some (JStr ''RECORDING_READY'') then
        [Console RecordingReady, Console (RecordingDetails payload)]
      else if k = Some (JStr ''MEETING_STARTED'') then
        [Console MeetingStarted, Console (MeetingDetails payload)]
      else if k = Some (JStr ''BOOKING_CANCELED'') then
        [Console BookingCanceled, Console (BookingDetails payload)]
      else [Console (Unhandled k)])"
  using assms by (simp add: dispatch_def)

text \<open>
  Claim C7. For an authentic request whose body parses to an event with a printable
  kind (any string, number, boolean, \<open>null\<close> or no kind at all) other than booking
  created, no-show and meeting ended, so for transcription generated, recording ready,
  meeting started, booking canceled and every unrecognized kind, the handler responds 200
  with \<open>{received: true}\<close> and calls none of the persistence, refund and analytics
  collaborators.
\<close>

theorem POST_log_only_kinds:
  assumes auth: "signature req = expectedSignature E (text' req)"
    and parsed: "JSON_parse E (text' req) = Some event"
    and kind: "get_prop (Some event) ''triggerEvent'' = Inr k"
    and payload: "get_prop (Some event) ''payload'' = Inr payload"
    and printable: "\<not> template_throws k"
    and other: "k \<noteq> Some (JStr ''BOOKING_CREATED'')"
      "k \<noteq> Some (JStr ''AFTER_HOSTS_CAL_VIDEO_NO_SHOW'')"
      "k \<noteq> Some (JStr ''MEETING_ENDED'')"
  shows "fst (POST E req) = Respond \<lparr>status = 200, json_body = Received\<rparr>
     \<and> persist_calls (snd (POST E req)) = []
     \<and> refund_calls (snd (POST E req)) = []
     \<and> analytics_calls (snd (POST E req)) = []"
  by (simp add: POST_dispatched [OF auth parsed kind payload printable]
        dispatch_other [OF other] after_def)

theorem POST_log_only_kinds_witness:
  "fst (POST example_env (delivery ''000000000000000000000000000000000000000000000000000000000000002e'' ping_text)) =
     Respond \<lparr>status = 200, json_body = Received\<rparr>
   \<and> persist_calls (snd (POST example_env (delivery ''000000000000000000000000000000000000000000000000000000000000002e'' ping_text))) = []
   \<and> refund_calls (snd (POST example_env (delivery ''000000000000000000000000000000000000000000000000000000000000002e'' ping_text))) = []
   \<and> analytics_calls (snd (POST example_env (delivery ''000000000000000000000000000000000000000000000000000000000000002e'' ping_text))) = []"
proof -
  have auth: "signature (delivery ''000000000000000000000000000000000000000000000000000000000000002e'' ping_text) =
      expectedSignature example_env (text' (delivery ''000000000000000000000000000000000000000000000000000000000000002e'' ping_text))"
    by (simp add: delivery_def signature_def example_signature_ping_text)
  have parsed: "JSON_parse example_env (text' (delivery ''000000000000000000000000000000000000000000000000000000000000002e'' ping_text)) = Some ping_event"
    by (simp add: delivery_def example_parse_ping_text)
  have kind: "get_prop (Some ping_event) ''triggerEvent'' = Inr (Some (JStr ''PING''))"
    by (simp add: ping_event_def)
  have payload: "get_prop (Some ping_event) ''payload'' = Inr (Some (JObj []))"
    by (simp add: ping_event_def)
  have printable: "\<not> template_throws (Some (JStr ''PING''))"
    by simp
  have other: "Some (JStr ''PING'') \<noteq> Some (JStr ''BOOKING_CREATED'')"
    "Some (JStr ''PING'') \<noteq> Some (JStr ''AFTER_HOSTS_CAL_VIDEO_NO_SHOW'')"
    "Some (JStr ''PING'') \<noteq> Some (JStr ''MEETING_ENDED'')"
    by simp_all
  from POST_log_only_kinds [OF auth parsed kind payload printable other]
  show ?thesis .
qed

subsection \<open>Failures in the dispatch\<close>

text \<open>
  The failures that reach the \<open>catch\<close> of line 126: a no-show or meeting-ended event
  without readable metadata, and a failing analytics call. A failing persistence or refund
  call is answered inside its own branch.
\<close>

lemma dispatch_Throw:
  assumes "dispatch E k payload = (Throw e, tr)"
  shows "(k = Some (JStr ''AFTER_HOSTS_CAL_VIDEO_NO_SHOW'')
            \<and> metadata_prop payload ''paymentId'' = Inl e)
       \<or> (k = Some (JStr ''MEETING_ENDED'')
            \<and> (metadata_prop payload ''mentorUserId'' = Inl e
                 \<or> (\<exists>ev. createAnalyticsEvent E ev = Inl e \<and> CreateAnalyticsEvent ev \<in> set tr)))"
proof -
  have actor: "metadata_prop payload ''actorUserId'' \<noteq> Inl x"
    if "metadata_prop payload ''mentorUserId'' = Inr m" for m x
    using metadata_prop_other [OF that, of "''actorUserId''"] by auto
  show ?thesis
    using assms actor
    by (auto simp add: dispatch_def after_def Let_def split: if_splits sum.splits prod.splits)
qed

text \<open>A response that a branch returns never has the body of the general failure.\<close>

lemma storeBooking_body:
  "json_body (fst (storeBooking E payload)) \<noteq> ErrorBody ''Failed to process webhook''"
  by (simp add: storeBooking_def after_def split: sum.splits list.splits)

lemma dispatch_Return_body:
  assumes "dispatch E k payload = (Return r, tr)"
  shows "json_body r \<noteq> ErrorBody ''Failed to process webhook''"
proof (cases "k = Some (JStr ''BOOKING_CREATED'')")
  case True
  with assms have "r = fst (storeBooking E payload)"
    by (simp add: dispatch_booking)
  then show ?thesis
    by (simp add: storeBooking_body)
next
  case False
  with assms show ?thesis
    by (auto simp add: dispatch_def after_def Let_def split: if_splits sum.splits)
qed

text \<open>
  Claim C8. For an authentic request whose body parses to an event with a printable
  kind: whatever the \<open>switch\<close> throws is caught, answered with 500 and the general
  error body, and logged last, together with the event kind. This is what happens to a
  no-show or meeting-ended event whose metadata cannot be read. Conversely, the general
  error body is only ever the answer to such a throw: the failures of the storage and
  refund branches are answered there, with bodies of their own.
\<close>

theorem POST_dispatch_failure:
  assumes auth: "signature req = expectedSignature E (text' req)"
    and parsed: "JSON_parse E (text' req) = Some event"
    and kind: "get_prop (Some event) ''triggerEvent'' = Inr k"
    and payload: "get_prop (Some event) ''payload'' = Inr payload"
    and printable: "\<not> template_throws k"
  shows
    "(\<forall>e tr. dispatch E k payload = (Throw e, tr) \<longrightarrow>
        POST E req =
          (Respond \<lparr>status = 500, json_body = ErrorBody ''Failed to process webhook''\<rparr>,
           [JSONParse (text' req), Console (ReceivedEvent k payload), Console (ReceivedKind k)]
             @ tr @ [Console (DispatchError k e)]))
     \<and> (\<forall>e. k = Some (JStr ''AFTER_HOSTS_CAL_VIDEO_NO_SHOW'')
             \<and> metadata_prop payload ''paymentId'' = Inl e \<longrightarrow>
          POST E req =
            (Respond \<lparr>status = 500, json_body = ErrorBody ''Failed to process webhook''\<rparr>,
             [JSONParse (text' req), Console (ReceivedEvent k payload), Console (ReceivedKind k),
              Console (DispatchError k e)]))
     \<and> (\<forall>e. k = Some (JStr ''MEETING_ENDED'')
             \<and> metadata_prop payload ''mentorUserId'' = Inl e \<longrightarrow>
          POST E req =
            (Respond \<lparr>status = 500, json_body = ErrorBody ''Failed to process webhook''\<rparr>,
             [JSONParse (text' req), Console (ReceivedEvent k payload), Console (ReceivedKind k),
              Console MeetingEnded, Console (MeetingDetails payload),
              Console (DispatchError k e)]))
     \<and> (fst (POST E req) =
           Respond \<lparr>status = 500, json_body = ErrorBody ''Failed to process webhook''\<rparr> \<longrightarrow>
          (\<exists>e tr. dispatch E k payload = (Throw e, tr)))"
proof -
  note run = POST_dispatched [OF auth parsed kind payload printable]
  have caught: "POST E req =
          (Respond \<lparr>status = 500, json_body = ErrorBody ''Failed to process webhook''\<rparr>,
           [JSONParse (text' req), Console (ReceivedEvent k payload), Console (ReceivedKind k)]
             @ tr @ [Console (DispatchError k e)])"
    if "dispatch E k payload = (Throw e, tr)" for e tr
    using that by (simp add: run after_def)
  have no_show: "POST E req =
            (Respond \<lparr>status = 500, json_body = ErrorBody ''Failed to process webhook''\<rparr>,
             [JSONParse (text' req), Console (ReceivedEvent k payload), Console (ReceivedKind k),
              Console (DispatchError k e)])"
    if "k = Some (JStr ''AFTER_HOSTS_CAL_VIDEO_NO_SHOW'')"
      and "metadata_prop payload ''paymentId'' = Inl e" for e
  proof -
    from that have "dispatch E k payload = (Throw e, [])"
      by (simp add: dispatch_no_show)
    from caught [OF this] show ?thesis by simp
  qed
  have meeting: "POST E req =
            (Respond \<lparr>status = 500, json_body = ErrorBody ''Failed to process webhook''\<rparr>,
             [JSONParse (text' req), Console (ReceivedEvent k payload), Console (ReceivedKind k),
              Console MeetingEnded, Console (MeetingDetails payload),
              Console (DispatchError k e)])"
    if "k = Some (JStr ''MEETING_ENDED'')"
      and "metadata_prop payload ''mentorUserId'' = Inl e" for e
  proof -
    from that have "dispatch E k payload =
        (Throw e, [Console MeetingEnded, Console (MeetingDetails payload)])"
      by (simp add: dispatch_meeting_ended after_def)
    from caught [OF this] show ?thesis by simp
  qed
  have only: "\<exists>e tr. dispatch E k payload = (Throw e, tr)"
    if generic: "fst (POST E req) =
           Respond \<lparr>status = 500, json_body = ErrorBody ''Failed to process webhook''\<rparr>"
  proof -
    obtain c tr where d: "dispatch E k payload = (c, tr)"
      by (cases "dispatch E k payload")
    show ?thesis
    proof (cases c)
      case (Return r)
      with d generic have "r = \<lparr>status = 500, json_body = ErrorBody ''Failed to process webhook''\<rparr>"
        by (simp add: run after_def)
      with dispatch_Return_body [of E k payload r tr] d Return show ?thesis
        by simp
    next
      case Break
      with d generic show ?thesis
        by (simp add: run after_def)
    next
      case (Throw e)
      with d show ?thesis by blast
    qed
  qed
  from caught no_show meeting only show ?thesis by blast
qed

theorem POST_dispatch_failure_witness:
  "POST example_env (delivery ''0000000000000000000000000000000000000000000000000000000000000047'' no_show_bare_text) =
     (Respond \<lparr>status = 500, json_body = ErrorBody ''Failed to process webhook''\<rparr>,
      [JSONParse no_show_bare_text,
       Console (ReceivedEvent (Some (JStr ''AFTER_HOSTS_CAL_VIDEO_NO_SHOW'')) (Some (JObj []))),
       Console (ReceivedKind (Some (JStr ''AFTER_HOSTS_CAL_VIDEO_NO_SHOW''))),
       Console (DispatchError (Some (JStr ''AFTER_HOSTS_CAL_VIDEO_NO_SHOW'')) TypeError)])"
proof -
  have auth: "signature (delivery ''0000000000000000000000000000000000000000000000000000000000000047'' no_show_bare_text) =
      expectedSignature example_env (text' (delivery ''0000000000000000000000000000000000000000000000000000000000000047'' no_show_bare_text))"
    by (simp add: delivery_def signature_def example_signature_no_show_bare_text)
  have parsed: "JSON_parse example_env (text' (delivery ''0000000000000000000000000000000000000000000000000000000000000047'' no_show_bare_text)) = Some no_show_bare_event"
    by (simp add: delivery_def example_parse_no_show_bare_text)
  have kind: "get_prop (Some no_show_bare_event) ''triggerEvent'' = Inr (Some (JStr ''AFTER_HOSTS_CAL_VIDEO_NO_SHOW''))"
    by (simp add: no_show_bare_event_def)
  have payload: "get_prop (Some no_show_bare_event) ''payload'' = Inr (Some (JObj []))"
    by (simp add: no_show_bare_event_def)
  have printable: "\<not> template_throws (Some (JStr ''AFTER_HOSTS_CAL_VIDEO_NO_SHOW''))"
    by simp
  have unreadable: "metadata_prop (Some (JObj [])) ''paymentId'' = Inl TypeError"
    by (simp add: metadata_prop_def)
  from POST_dispatch_failure [OF auth parsed kind payload printable] unreadable
  show ?thesis by (simp add: delivery_def)
qed

end
